theory Spec2Isabelle
  imports Main "HOL-Library.Word"
begin

unbundle bit_operations_syntax

section \<open>The weston-launch client: libweston/launcher-weston-launch.c\<close>

text \<open>
  A shallow embedding of the launcher that talks to the privileged weston-launch helper
  over a socket. The C functions mutate \<^verbatim>\<open>struct launcher_weston_launch\<close> and
  call the operating system; here the struct is a record that is passed in and returned,
  and the operating system is a record \<open>world\<close>: the outcomes of the system calls still to
  come (inputs), the compositor's \<^verbatim>\<open>session_active\<close>, the number of idle callbacks
  that wait in the event loop, and the trace of the effects performed so far (outputs).
  A call that would block for ever, because the outcomes have run out, is \<open>None\<close>.
  The lines written to the log are not part of the trace.
\<close>

subsection \<open>Constants of the system headers\<close>

text \<open>Linux: errno.h, sys/socket.h, fcntl.h, linux/kd.h, linux/vt.h; line 55 of the file
  for \<^verbatim>\<open>KDSKBMUTE\<close>; wayland-server-core.h for the event masks.\<close>

definition EINTR :: int where "EINTR = 4"
definition ENOMEM :: int where "ENOMEM = 12"
definition SOL_SOCKET :: int where "SOL_SOCKET = 1"
definition SCM_RIGHTS :: int where "SCM_RIGHTS = 1"
definition FD_CLOEXEC :: int where "FD_CLOEXEC = 1"
definition KDSKBMUTE :: int where "KDSKBMUTE = 0x4B51"
definition KDSKBMODE :: int where "KDSKBMODE = 0x4B45"
definition KDSETMODE :: int where "KDSETMODE = 0x4B3A"
definition KD_TEXT :: int where "KD_TEXT = 0"
definition K_UNICODE :: int where "K_UNICODE = 3"
definition VT_SETMODE :: int where "VT_SETMODE = 0x5602"
definition VT_AUTO :: int where "VT_AUTO = 0"
definition WL_EVENT_HANGUP :: "32 word" where "WL_EVENT_HANGUP = 4"
definition WL_EVENT_ERROR :: "32 word" where "WL_EVENT_ERROR = 8"

text \<open>\<^verbatim>\<open>struct { int id; int ret; } event\<close> is two 4-byte ints.\<close>

definition sizeof_event :: int where "sizeof_event = 8"
definition sizeof_event_id :: int where "sizeof_event_id = 4"

subsection \<open>The opcodes of weston-launch.h\<close>

text \<open>
  weston-launch.h, which gives the \<^verbatim>\<open>WESTON_LAUNCHER_*\<close> enumerators their values, is
  not among the sources. The functions below take the five values they use as a parameter.
\<close>

record opcodes =
  WESTON_LAUNCHER_OPEN :: int
  WESTON_LAUNCHER_ACTIVATE :: int
  WESTON_LAUNCHER_DEACTIVATE :: int
  WESTON_LAUNCHER_DEACTIVATE_DONE :: int
  WESTON_LAUNCHER_OPEN_REPLY :: int

subsection \<open>Data\<close>

text \<open>\<^verbatim>\<open>struct launcher_weston_launch\<close> (lines 88-96). \<open>source\<close> is the address of the
  event source, 0 for \<^verbatim>\<open>NULL\<close>; \<open>base\<close> and \<open>compositor\<close> are pointers that never change.\<close>

record launcher_weston_launch =
  fd :: int
  source :: int
  kb_mode :: int
  tty :: int
  drm_fd :: int
  deferred_deactivate :: int

text \<open>The first control message of a received \<^verbatim>\<open>msghdr\<close>, with the \<^verbatim>\<open>fd\<close> member of
  \<^verbatim>\<open>union cmsg_data\<close> (line 86) read from its data.\<close>

record cmsghdr =
  cmsg_level :: int
  cmsg_type :: int
  cmsg_fd :: int

text \<open>
  What the code sees after one \<^verbatim>\<open>recvmsg\<close> (or \<^verbatim>\<open>recv\<close>) call: the returned length,
  \<^verbatim>\<open>errno\<close>, the two ints of the receive buffer as they stand after the call (stale when
  the call wrote fewer bytes), and \<^verbatim>\<open>CMSG_FIRSTHDR\<close>, \<open>None\<close> for \<^verbatim>\<open>NULL\<close>.
  \<^verbatim>\<open>recv\<close> of line 261 reads one int only: \<open>rx_id\<close> is then its \<^verbatim>\<open>ret\<close>.
\<close>

record rx =
  rx_len :: int
  rx_errno :: int
  rx_id :: int
  rx_ret :: int
  rx_cmsg :: "cmsghdr option"

text \<open>The outcome of one \<^verbatim>\<open>send\<close> call: the returned length and \<^verbatim>\<open>errno\<close>.\<close>

record tx =
  tx_len :: int
  tx_errno :: int

text \<open>The two buffers the launcher sends: \<^verbatim>\<open>struct weston_launcher_open\<close> with its opcode,
  flags and path, and a single int.\<close>

datatype wire = OpenMsg int int string | IntMsg int

datatype effect =
    SysSend int wire
  | AddIdle
  | SetDeferred int
  | SetSessionActive bool
  | SignalEmit
  | Ioctl int int int
  | DropMaster int
  | Close int
  | SourceRemove int
  | Free
  | Exit int

record world =
  w_sends :: "tx list"
  w_recvs :: "rx list"
  w_ioctl :: "int \<Rightarrow> int \<Rightarrow> int \<Rightarrow> int"
  session_active :: bool
  idle_pending :: nat
  trace :: "effect list"

definition emit :: "effect list \<Rightarrow> world \<Rightarrow> world" where
  "emit es W = W\<lparr>trace := trace W @ es\<rparr>"

text \<open>
  Every failing \<^verbatim>\<open>return\<close> of the C code returns -1 (or \<^verbatim>\<open>-ENOMEM\<close>); the model names
  the place that returned, in the words of the error taxonomy. No statement of the file
  returns for a failed send, so nothing below produces \<open>TransportError\<close>.
\<close>

datatype error =
    NoMemory
  | EnvironmentMissing
  | TransportError
  | ProtocolError
  | OpenRejected
  | MissingDescriptor

text \<open>The int that \<^verbatim>\<open>launcher_weston_launch_open\<close> returns.\<close>

definition open_status :: "error + int \<Rightarrow> int" where
  "open_status r = (case r of Inl e \<Rightarrow> - 1 | Inr d \<Rightarrow> d)"

subsection \<open>Sending (lines 98-108)\<close>

text \<open>The \<^verbatim>\<open>do ... while (len < 0 && errno == EINTR)\<close> loop: one outcome is consumed and one
  \<open>SysSend\<close> is recorded per call of \<^verbatim>\<open>send\<close>.\<close>

function launcher_weston_launch_send :: "int \<Rightarrow> wire \<Rightarrow> world \<Rightarrow> (int \<times> world) option" where
  "launcher_weston_launch_send sockfd buf W =
     (case w_sends W of
        [] \<Rightarrow> None
      | t # ts \<Rightarrow>
          (let W' = emit [SysSend sockfd buf] (W\<lparr>w_sends := ts\<rparr>)
           in if tx_len t < 0 \<and> tx_errno t = EINTR
              then launcher_weston_launch_send sockfd buf W'
              else Some (tx_len t, W')))"
  by pat_completeness auto
termination
  by (relation "measure (\<lambda>(sockfd, buf, W). length (w_sends W))") (auto simp: emit_def)

declare launcher_weston_launch_send.simps [simp del]

subsection \<open>Deactivation (lines 110-132)\<close>

definition handle_deactivate :: "opcodes \<Rightarrow> launcher_weston_launch \<Rightarrow> world \<Rightarrow> world option" where
  "handle_deactivate P L W =
     (let W1 = emit [SetSessionActive False, SignalEmit] (W\<lparr>session_active := False\<rparr>)
      in map_option snd
           (launcher_weston_launch_send (fd L) (IntMsg (WESTON_LAUNCHER_DEACTIVATE_DONE P)) W1))"

definition idle_deactivate ::
  "opcodes \<Rightarrow> launcher_weston_launch \<Rightarrow> world \<Rightarrow> (launcher_weston_launch \<times> world) option" where
  "idle_deactivate P L W =
     (if deferred_deactivate L \<noteq> 0
      then (let L' = L\<lparr>deferred_deactivate := 0\<rparr>
            in map_option (Pair L') (handle_deactivate P L' (emit [SetDeferred 0] W)))
      else Some (L, W))"

subsection \<open>Opening a device (lines 134-206)\<close>

text \<open>The inner loop of lines 171-173 (and of lines 260-262): a call that fails with
  \<^verbatim>\<open>EINTR\<close> is repeated.\<close>

function recvmsg_retry :: "world \<Rightarrow> (rx \<times> world) option" where
  "recvmsg_retry W =
     (case w_recvs W of
        [] \<Rightarrow> None
      | r # rs \<Rightarrow>
          (if rx_len r < 0 \<and> rx_errno r = EINTR
           then recvmsg_retry (W\<lparr>w_recvs := rs\<rparr>)
           else Some (r, W\<lparr>w_recvs := rs\<rparr>)))"
  by pat_completeness auto
termination
  by (relation "measure (\<lambda>W. length (w_recvs W))") auto

declare recvmsg_retry.simps [simp del]

lemma recvmsg_retry_shorter:
  "recvmsg_retry W = Some (r, W') \<Longrightarrow> length (w_recvs W') < length (w_recvs W)"
proof (induction W rule: recvmsg_retry.induct)
  case (1 W)
  show ?case
  proof (cases "w_recvs W")
    case Nil
    with "1.prems" show ?thesis by (simp add: recvmsg_retry.simps [of W])
  next
    case (Cons x xs)
    show ?thesis
    proof (cases "rx_len x < 0 \<and> rx_errno x = EINTR")
      case True
      with Cons "1.prems" have "recvmsg_retry (W\<lparr>w_recvs := xs\<rparr>) = Some (r, W')"
        by (simp add: recvmsg_retry.simps [of W])
      with "1.IH" [OF Cons True] have "length (w_recvs W') < length xs" by simp
      with Cons show ?thesis by simp
    next
      case False
      with Cons "1.prems" show ?thesis by (auto simp: recvmsg_retry.simps [of W])
    qed
  qed
qed

text \<open>
  The \<^verbatim>\<open>while (1)\<close> loop of lines 168-186. \<open>Inr r\<close> is the \<^verbatim>\<open>break\<close> of line 177 with the
  reply \<open>r\<close> in the buffer; \<open>Inl ProtocolError\<close> is the \<^verbatim>\<open>return -1\<close> of line 184.
\<close>

function open_wait ::
  "opcodes \<Rightarrow> launcher_weston_launch \<Rightarrow> world \<Rightarrow>
     ((error + rx) \<times> launcher_weston_launch \<times> world) option" where
  "open_wait P L W =
     (case recvmsg_retry W of
        None \<Rightarrow> None
      | Some (r, W1) \<Rightarrow>
          (if rx_len r = sizeof_event \<and> rx_id r = WESTON_LAUNCHER_OPEN_REPLY P
           then Some (Inr r, L, W1)
           else if rx_len r = sizeof_event_id \<and> rx_id r = WESTON_LAUNCHER_DEACTIVATE P
                   \<and> deferred_deactivate L = 0
           then open_wait P (L\<lparr>deferred_deactivate := 1\<rparr>)
                  (emit [AddIdle, SetDeferred 1] (W1\<lparr>idle_pending := Suc (idle_pending W1)\<rparr>))
           else Some (Inl ProtocolError, L, W1)))"
  by pat_completeness auto
termination
  by (relation "measure (\<lambda>(P, L, W). length (w_recvs W))")
     (auto simp: emit_def dest: recvmsg_retry_shorter)

declare open_wait.simps [simp del]

text \<open>
  Lines 188-205, on the reply that line 177 left in the buffer: the result code, the
  control message, the descriptor in it.
\<close>

definition open_validate :: "rx \<Rightarrow> error + int" where
  "open_validate event =
     (if rx_ret event < 0 then Inl OpenRejected
      else
        case rx_cmsg event of
          None \<Rightarrow> Inl MissingDescriptor
        | Some cmsg \<Rightarrow>
            if cmsg_level cmsg \<noteq> SOL_SOCKET \<or> cmsg_type cmsg \<noteq> SCM_RIGHTS
            then Inl MissingDescriptor
            else if cmsg_fd cmsg = - 1 then Inl MissingDescriptor
            else Inr (cmsg_fd cmsg))"

text \<open>What follows the loop: line 184 has returned already, or lines 188-205 run.\<close>

definition open_finish ::
  "((error + rx) \<times> launcher_weston_launch \<times> world) option \<Rightarrow>
     ((error + int) \<times> launcher_weston_launch \<times> world) option" where
  "open_finish waited =
     (case waited of
        None \<Rightarrow> None
      | Some (res, L2, W2) \<Rightarrow>
          Some (case res of Inl e \<Rightarrow> Inl e | Inr event \<Rightarrow> open_validate event, L2, W2))"

text \<open>\<open>mem\<close> says whether \<^verbatim>\<open>malloc\<close> of line 150 returned memory. The length that
  \<^verbatim>\<open>launcher_weston_launch_send\<close> returns at line 158 is dropped, as in the C.\<close>

definition launcher_weston_launch_open ::
  "opcodes \<Rightarrow> launcher_weston_launch \<Rightarrow> world \<Rightarrow> string \<Rightarrow> int \<Rightarrow> bool \<Rightarrow>
     ((error + int) \<times> launcher_weston_launch \<times> world) option" where
  "launcher_weston_launch_open P L W path flags mem =
     (if \<not> mem then Some (Inl NoMemory, L, W)
      else
        case launcher_weston_launch_send (fd L)
               (OpenMsg (WESTON_LAUNCHER_OPEN P) flags path) W of
          None \<Rightarrow> None
        | Some (len, W1) \<Rightarrow> open_finish (open_wait P L W1))"

subsection \<open>Restoring the terminal (lines 214-237)\<close>

text \<open>
  \<open>w_ioctl W d request arg\<close> is what \<^verbatim>\<open>ioctl(d, request, arg)\<close> returns. Line 220 joins its
  two calls with \<^verbatim>\<open>&&\<close>: \<^verbatim>\<open>KDSKBMODE\<close> is issued only when \<^verbatim>\<open>KDSKBMUTE\<close> returned
  non-zero. The other results only decide whether a line is logged. \<^verbatim>\<open>VT_SETMODE\<close> gets
  a \<^verbatim>\<open>struct vt_mode\<close> whose \<^verbatim>\<open>mode\<close> is \<^verbatim>\<open>VT_AUTO\<close>.
\<close>

definition launcher_weston_launch_restore :: "launcher_weston_launch \<Rightarrow> world \<Rightarrow> world" where
  "launcher_weston_launch_restore L W =
     (let W1 = emit [Ioctl (tty L) KDSKBMUTE 0] W;
          W2 = (if w_ioctl W (tty L) KDSKBMUTE 0 \<noteq> 0
                then emit [Ioctl (tty L) KDSKBMODE (kb_mode L)] W1
                else W1);
          W3 = emit [Ioctl (tty L) KDSETMODE KD_TEXT] W2;
          W4 = emit [DropMaster (drm_fd L)] W3
      in emit [Ioctl (tty L) VT_SETMODE VT_AUTO] W4)"

subsection \<open>Data on the socket (lines 239-279)\<close>

text \<open>A call of the launcher either returns an int or ends the process with \<^verbatim>\<open>exit\<close>.\<close>

datatype outcome = Returns int | Exits int

text \<open>\<open>evmask\<close> is the parameter \<^verbatim>\<open>mask\<close>; the parameter \<^verbatim>\<open>fd\<close> is not read.\<close>

definition launcher_weston_launch_data ::
  "opcodes \<Rightarrow> 32 word \<Rightarrow> launcher_weston_launch \<Rightarrow> world \<Rightarrow>
     (outcome \<times> launcher_weston_launch \<times> world) option" where
  "launcher_weston_launch_data P evmask L W =
     (if evmask AND (WL_EVENT_HANGUP OR WL_EVENT_ERROR) \<noteq> 0
      then Some (Exits (- 1), L, emit [Exit (- 1)] (launcher_weston_launch_restore L W))
      else if deferred_deactivate L \<noteq> 0
      then (let L' = L\<lparr>deferred_deactivate := 0\<rparr>
            in map_option (\<lambda>W'. (Returns 1, L', W'))
                 (handle_deactivate P L' (emit [SetDeferred 0] W)))
      else
        case recvmsg_retry W of
          None \<Rightarrow> None
        | Some (r, W1) \<Rightarrow>
            if rx_id r = WESTON_LAUNCHER_ACTIVATE P
            then Some (Returns 1, L,
                       emit [SetSessionActive True, SignalEmit] (W1\<lparr>session_active := True\<rparr>))
            else if rx_id r = WESTON_LAUNCHER_DEACTIVATE P
            then map_option (\<lambda>W'. (Returns 1, L, W')) (handle_deactivate P L W1)
            else Some (Returns 1, L, W1))"

subsection \<open>Connecting (lines 288-355)\<close>

text \<open>The part of the process that \<^verbatim>\<open>connect\<close> reads and changes: the environment, and the
  descriptor flags of the open descriptors (a descriptor outside the domain is not open).\<close>

record process =
  environ :: "string \<rightharpoonup> string"
  fdflags :: "int \<rightharpoonup> int"

text \<open>\<^verbatim>\<open>fcntl(d, F_GETFD)\<close>: the flags, or -1 for a descriptor that is not open.\<close>

definition fcntl_getfd :: "process \<Rightarrow> int \<Rightarrow> int" where
  "fcntl_getfd p d = (case fdflags p d of None \<Rightarrow> - 1 | Some flags \<Rightarrow> flags)"

text \<open>
  \<^verbatim>\<open>safe_strtoint\<close> is declared in shared/string-helpers.h, which is not among the sources:
  it is the parameter \<open>strtoint\<close>, \<open>None\<close> when it returns false.
\<close>

definition launcher_weston_environment_get_fd ::
  "(string \<Rightarrow> int option) \<Rightarrow> string \<Rightarrow> process \<Rightarrow> int \<times> process" where
  "launcher_weston_environment_get_fd strtoint env p =
     (case environ p env of
        None \<Rightarrow> (- 1, p)
      | Some e \<Rightarrow>
          (case strtoint e of
             None \<Rightarrow> (- 1, p)
           | Some d \<Rightarrow>
               (let flags = fcntl_getfd p d
                in if flags = - 1 then (- 1, p)
                   else (d, p\<lparr>fdflags := (fdflags p)(d \<mapsto> flags OR FD_CLOEXEC),
                              environ := (environ p)(env := None)\<rparr>))))"

text \<open>
  \<open>mem\<close> says whether \<^verbatim>\<open>malloc\<close> returned memory, \<open>src\<close> is what
  \<^verbatim>\<open>wl_event_loop_add_fd\<close> returns (0 for \<^verbatim>\<open>NULL\<close>). The result is the returned int, what
  \<^verbatim>\<open>*out\<close> holds (\<open>None\<close> when it was not written), the process, and the calls that
  release something: \<open>Free\<close> for \<^verbatim>\<open>free(launcher)\<close> of lines 331 and 347; the function
  calls \<^verbatim>\<open>close\<close> nowhere. The arguments \<^verbatim>\<open>tty\<close>, \<^verbatim>\<open>seat_id\<close> and \<^verbatim>\<open>sync_drm\<close> are not
  read by the function.
\<close>

definition launcher_weston_launch_connect ::
  "(string \<Rightarrow> int option) \<Rightarrow> bool \<Rightarrow> int \<Rightarrow> process \<Rightarrow>
     int \<times> launcher_weston_launch option \<times> process \<times> effect list" where
  "launcher_weston_launch_connect strtoint mem src p =
     (if \<not> mem then (- ENOMEM, None, p, [])
      else
        (let (sock, p1) = launcher_weston_environment_get_fd strtoint ''WESTON_LAUNCHER_SOCK'' p
         in if sock = - 1 then (- 1, None, p1, [Free])
            else
              (let (t, p2) = launcher_weston_environment_get_fd strtoint ''WESTON_TTY_FD'' p1
               in if src = 0 then (- ENOMEM, None, p2, [Free])
                  else (0,
                        Some \<lparr>fd = sock, source = src, kb_mode = K_UNICODE, tty = t,
                              drm_fd = - 1, deferred_deactivate = 0\<rparr>,
                        p2, []))))"

subsection \<open>Destroying (lines 357-373)\<close>


subsection \<open>The event loop\<close>

text \<open>
  What the compositor and its event loop do with the launcher, one event at a time: the
  compositor opens a device, the loop runs one of the idle callbacks that wait (each is
  \<^verbatim>\<open>idle_deactivate\<close>, added at line 180), or the loop finds the socket ready and calls
  \<^verbatim>\<open>launcher_weston_launch_data\<close>. \<open>None\<close>: the process blocks for ever or has exited.
\<close>

datatype event = CallOpen string int bool | RunIdle | Dispatch "32 word"

fun step ::
  "opcodes \<Rightarrow> event \<Rightarrow> launcher_weston_launch \<times> world \<Rightarrow>
     (launcher_weston_launch \<times> world) option" where
  "step P (CallOpen path flags mem) (L, W) =
     map_option snd (launcher_weston_launch_open P L W path flags mem)"
| "step P RunIdle (L, W) =
     (if idle_pending W = 0 then Some (L, W)
      else idle_deactivate P L (W\<lparr>idle_pending := idle_pending W - 1\<rparr>))"
| "step P (Dispatch evmask) (L, W) =
     (case launcher_weston_launch_data P evmask L W of
        None \<Rightarrow> None
      | Some (Returns v, L', W') \<Rightarrow> Some (L', W')
      | Some (Exits v, L', W') \<Rightarrow> None)"

fun run ::
  "opcodes \<Rightarrow> event list \<Rightarrow> launcher_weston_launch \<times> world \<Rightarrow>
     (launcher_weston_launch \<times> world) option" where
  "run P [] s = Some s"
| "run P (e # es) s = (case step P e s of None \<Rightarrow> None | Some s' \<Rightarrow> run P es s')"

subsection \<open>Concrete inputs for the examples\<close>

text \<open>One assignment of distinct opcodes, in the order in which the protocol lists them.\<close>

definition opcodes_example :: opcodes where
  "opcodes_example =
     \<lparr>WESTON_LAUNCHER_OPEN = 0, WESTON_LAUNCHER_ACTIVATE = 1, WESTON_LAUNCHER_DEACTIVATE = 2,
      WESTON_LAUNCHER_DEACTIVATE_DONE = 3, WESTON_LAUNCHER_OPEN_REPLY = 4\<rparr>"

text \<open>A connection as \<^verbatim>\<open>connect\<close> leaves it: socket 3, terminal 4.\<close>

definition launcher_example :: launcher_weston_launch where
  "launcher_example =
     \<lparr>fd = 3, source = 1, kb_mode = K_UNICODE, tty = 4, drm_fd = - 1, deferred_deactivate = 0\<rparr>"

text \<open>An operating system in which every \<^verbatim>\<open>ioctl\<close> succeeds, and one in which every
  \<^verbatim>\<open>ioctl\<close> fails.\<close>

definition ioctl_ok :: "int \<Rightarrow> int \<Rightarrow> int \<Rightarrow> int" where
  "ioctl_ok d request arg = 0"

definition ioctl_fails :: "int \<Rightarrow> int \<Rightarrow> int \<Rightarrow> int" where
  "ioctl_fails d request arg = - 1"

definition world_example :: "tx list \<Rightarrow> rx list \<Rightarrow> world" where
  "world_example ts rs =
     \<lparr>w_sends = ts, w_recvs = rs, w_ioctl = ioctl_ok, session_active = True,
      idle_pending = 0, trace = []\<rparr>"

definition sent :: "int \<Rightarrow> tx" where
  "sent n = \<lparr>tx_len = n, tx_errno = 0\<rparr>"

definition send_failed :: "int \<Rightarrow> tx" where
  "send_failed e = \<lparr>tx_len = - 1, tx_errno = e\<rparr>"

text \<open>A descriptor passed in a well-formed control message.\<close>

definition rights :: "int \<Rightarrow> cmsghdr" where
  "rights d = \<lparr>cmsg_level = SOL_SOCKET, cmsg_type = SCM_RIGHTS, cmsg_fd = d\<rparr>"

definition msg_deactivate :: rx where
  "msg_deactivate =
     \<lparr>rx_len = 4, rx_errno = 0, rx_id = WESTON_LAUNCHER_DEACTIVATE opcodes_example,
      rx_ret = 0, rx_cmsg = None\<rparr>"

definition msg_open_reply :: "int \<Rightarrow> cmsghdr option \<Rightarrow> rx" where
  "msg_open_reply res c =
     \<lparr>rx_len = 8, rx_errno = 0, rx_id = WESTON_LAUNCHER_OPEN_REPLY opcodes_example,
      rx_ret = res, rx_cmsg = c\<rparr>"

text \<open>The peer has hung up: \<^verbatim>\<open>recvmsg\<close> returns 0 and writes nothing.\<close>

definition msg_hangup :: rx where
  "msg_hangup = \<lparr>rx_len = 0, rx_errno = 0, rx_id = 0, rx_ret = 0, rx_cmsg = None\<rparr>"

text \<open>An \<^verbatim>\<open>errno\<close> that is not \<^verbatim>\<open>EINTR\<close>, and the mask of a socket that is readable.\<close>

definition EPIPE :: int where "EPIPE = 32"

text \<open>A process that inherits socket 3 and no terminal slot, and a parser that reads the
  two strings it is given as the numbers they spell.\<close>

definition process_example :: process where
  "process_example =
     \<lparr>environ = [''WESTON_LAUNCHER_SOCK'' \<mapsto> ''3''], fdflags = [3 \<mapsto> 0]\<rparr>"

definition strtoint_example :: "string \<Rightarrow> int option" where
  "strtoint_example = [''3'' \<mapsto> 3, ''4'' \<mapsto> 4]"

text \<open>A process that inherits socket 3 and terminal 4.\<close>

definition process_both :: process where
  "process_both =
     \<lparr>environ = [''WESTON_LAUNCHER_SOCK'' \<mapsto> ''3'', ''WESTON_TTY_FD'' \<mapsto> ''4''],
      fdflags = [3 \<mapsto> 0, 4 \<mapsto> 0]\<rparr>"

subsection \<open>Words of the claims\<close>

text \<open>An environment slot that is absent, or that does not parse, or that names a
  descriptor that is not open.\<close>

definition slot_missing :: "(string \<Rightarrow> int option) \<Rightarrow> process \<Rightarrow> string \<Rightarrow> bool" where
  "slot_missing strtoint p env =
     (case environ p env of
        None \<Rightarrow> True
      | Some e \<Rightarrow> (case strtoint e of None \<Rightarrow> True | Some d \<Rightarrow> fdflags p d = None))"




section \<open>Properties\<close>

subsection \<open>What the loops leave unchanged\<close>

lemma recvmsg_retry_world:
  "recvmsg_retry W = Some (r, W') \<Longrightarrow>
     w_sends W' = w_sends W \<and> w_ioctl W' = w_ioctl W \<and> session_active W' = session_active W
     \<and> idle_pending W' = idle_pending W \<and> trace W' = trace W"
proof (induction W rule: recvmsg_retry.induct)
  case (1 W)
  show ?case
  proof (cases "w_recvs W")
    case Nil
    with "1.prems" show ?thesis by (simp add: recvmsg_retry.simps [of W])
  next
    case (Cons x xs)
    show ?thesis
    proof (cases "rx_len x < 0 \<and> rx_errno x = EINTR")
      case True
      with Cons "1.prems" have "recvmsg_retry (W\<lparr>w_recvs := xs\<rparr>) = Some (r, W')"
        by (simp add: recvmsg_retry.simps [of W])
      from "1.IH" [OF Cons True this] show ?thesis by simp
    next
      case False
      with Cons "1.prems" show ?thesis by (auto simp: recvmsg_retry.simps [of W])
    qed
  qed
qed

lemma send_world:
  "launcher_weston_launch_send s b W = Some (n, W') \<Longrightarrow>
     w_recvs W' = w_recvs W \<and> w_ioctl W' = w_ioctl W \<and> session_active W' = session_active W
     \<and> idle_pending W' = idle_pending W
     \<and> (\<exists>k. trace W' = trace W @ replicate (Suc k) (SysSend s b))"
proof (induction s b W rule: launcher_weston_launch_send.induct)
  case (1 s b W)
  show ?case
  proof (cases "w_sends W")
    case Nil
    with "1.prems" show ?thesis by (simp add: launcher_weston_launch_send.simps [of s b W])
  next
    case (Cons t ts)
    let ?W1 = "emit [SysSend s b] (W\<lparr>w_sends := ts\<rparr>)"
    show ?thesis
    proof (cases "tx_len t < 0 \<and> tx_errno t = EINTR")
      case True
      with Cons "1.prems" have "launcher_weston_launch_send s b ?W1 = Some (n, W')"
        by (simp add: launcher_weston_launch_send.simps [of s b W] Let_def)
      from "1.IH" [OF Cons refl True this] obtain k where
        f: "w_recvs W' = w_recvs ?W1" "w_ioctl W' = w_ioctl ?W1"
           "session_active W' = session_active ?W1" "idle_pending W' = idle_pending ?W1"
           and "trace W' = trace ?W1 @ replicate (Suc k) (SysSend s b)"
        by blast
      then have "trace W' = trace W @ replicate (Suc (Suc k)) (SysSend s b)"
        by (simp add: emit_def)
      with f show ?thesis unfolding emit_def by (simp del: replicate_Suc)
    next
      case False
      with Cons "1.prems" have "W' = ?W1"
        by (auto simp: launcher_weston_launch_send.simps [of s b W] Let_def)
      then have "trace W' = trace W @ replicate (Suc 0) (SysSend s b)"
          and  "w_recvs W' = w_recvs W" "w_ioctl W' = w_ioctl W"
           "session_active W' = session_active W" "idle_pending W' = idle_pending W"
        by (simp_all add: emit_def)
      then show ?thesis by blast
    qed
  qed
qed

lemma open_wait_step:
  "recvmsg_retry W = Some (r, W1) \<Longrightarrow>
   open_wait P L W =
     (if rx_len r = sizeof_event \<and> rx_id r = WESTON_LAUNCHER_OPEN_REPLY P
      then Some (Inr r, L, W1)
      else if rx_len r = sizeof_event_id \<and> rx_id r = WESTON_LAUNCHER_DEACTIVATE P
              \<and> deferred_deactivate L = 0
      then open_wait P (L\<lparr>deferred_deactivate := 1\<rparr>)
             (emit [AddIdle, SetDeferred 1] (W1\<lparr>idle_pending := Suc (idle_pending W1)\<rparr>))
      else Some (Inl ProtocolError, L, W1))"
  by (simp add: open_wait.simps [of P L W])

lemma open_wait_effect:
  "open_wait P L W = Some (res, L', W') \<Longrightarrow>
     w_sends W' = w_sends W \<and> w_ioctl W' = w_ioctl W \<and> session_active W' = session_active W \<and>
     ((L' = L \<and> idle_pending W' = idle_pending W \<and> trace W' = trace W) \<or>
      (deferred_deactivate L = 0 \<and> L' = L\<lparr>deferred_deactivate := 1\<rparr> \<and>
       idle_pending W' = Suc (idle_pending W) \<and>
       trace W' = trace W @ [AddIdle, SetDeferred 1]))"
proof (induction P L W rule: open_wait.induct)
  case (1 P L W)
  from "1.prems" obtain r W1 where rcv: "recvmsg_retry W = Some (r, W1)"
    by (cases "recvmsg_retry W") (auto simp: open_wait.simps [of P L W])
  note W1 = recvmsg_retry_world [OF rcv]
  note step = open_wait_step [OF rcv, of P L]
  show ?case
  proof (cases "rx_len r = sizeof_event \<and> rx_id r = WESTON_LAUNCHER_OPEN_REPLY P")
    case True
    with step "1.prems" have "L' = L" "W' = W1" by auto
    with W1 show ?thesis by simp
  next
    case notreply: False
    show ?thesis
    proof (cases "rx_len r = sizeof_event_id \<and> rx_id r = WESTON_LAUNCHER_DEACTIVATE P
                   \<and> deferred_deactivate L = 0")
      case True
      let ?L1 = "L\<lparr>deferred_deactivate := 1\<rparr>"
      let ?W2 = "emit [AddIdle, SetDeferred 1] (W1\<lparr>idle_pending := Suc (idle_pending W1)\<rparr>)"
      have "open_wait P L W = open_wait P ?L1 ?W2"
        unfolding step using notreply True by (simp add: sizeof_event_def sizeof_event_id_def)
      with "1.prems" have rec: "open_wait P ?L1 ?W2 = Some (res, L', W')" by simp
      from "1.IH" [OF rcv refl notreply True rec]
      have "w_sends W' = w_sends ?W2 \<and> w_ioctl W' = w_ioctl ?W2
            \<and> session_active W' = session_active ?W2
            \<and> L' = ?L1 \<and> idle_pending W' = idle_pending ?W2 \<and> trace W' = trace ?W2"
        by auto
      with W1 True show ?thesis by (simp add: emit_def)
    next
      case False
      with notreply step "1.prems" have "L' = L" "W' = W1" by auto
      with W1 show ?thesis by simp
    qed
  qed
qed

lemma open_after_send:
  "launcher_weston_launch_send (fd L) (OpenMsg (WESTON_LAUNCHER_OPEN P) flags path) W = Some (n, Ws)
   \<Longrightarrow> launcher_weston_launch_open P L W path flags True = open_finish (open_wait P L Ws)"
  by (simp add: launcher_weston_launch_open_def)

lemma open_finish_error:
  "open_finish (Some (Inl e, L, W)) = Some (Inl e, L, W)"
  by (simp add: open_finish_def)

lemma emit_eq:
  "emit [AddIdle, SetDeferred 1] (Wr\<lparr>idle_pending := Suc (idle_pending Wr)\<rparr>) =
     Wr\<lparr>idle_pending := Suc (idle_pending Wr), trace := trace Wr @ [AddIdle, SetDeferred 1]\<rparr>"
  by (simp add: emit_def)

lemma open_wait_Inr:
  "open_wait P L W = Some (Inr event, L', W') \<Longrightarrow>
     rx_len event = sizeof_event \<and> rx_id event = WESTON_LAUNCHER_OPEN_REPLY P"
proof (induction P L W rule: open_wait.induct)
  case (1 P L W)
  from "1.prems" obtain r W1 where rcv: "recvmsg_retry W = Some (r, W1)"
    by (cases "recvmsg_retry W") (auto simp: open_wait.simps [of P L W])
  note step = open_wait_step [OF rcv, of P L]
  show ?case
  proof (cases "rx_len r = sizeof_event \<and> rx_id r = WESTON_LAUNCHER_OPEN_REPLY P")
    case True
    with step "1.prems" show ?thesis by auto
  next
    case notreply: False
    show ?thesis
    proof (cases "rx_len r = sizeof_event_id \<and> rx_id r = WESTON_LAUNCHER_DEACTIVATE P
                   \<and> deferred_deactivate L = 0")
      case True
      have "open_wait P L W = open_wait P (L\<lparr>deferred_deactivate := 1\<rparr>)
              (emit [AddIdle, SetDeferred 1] (W1\<lparr>idle_pending := Suc (idle_pending W1)\<rparr>))"
        by (rule trans [OF step]) (simp only: if_not_P [OF notreply] if_P [OF True])
      with "1.prems" "1.IH" [OF rcv refl notreply True] show ?thesis by simp
    next
      case False
      have "open_wait P L W = Some (Inl ProtocolError, L, W1)"
        by (rule trans [OF step]) (simp only: if_not_P [OF notreply] if_not_P [OF False])
      with "1.prems" show ?thesis by simp
    qed
  qed
qed

lemma open_effect:
  assumes "launcher_weston_launch_open P L W path flags mem = Some (res, L', W')"
  shows "session_active W' = session_active W \<and> w_ioctl W' = w_ioctl W \<and>
     (\<exists>k. (L' = L \<and> idle_pending W' = idle_pending W \<and>
            trace W' = trace W @
              replicate k (SysSend (fd L) (OpenMsg (WESTON_LAUNCHER_OPEN P) flags path))) \<or>
          (deferred_deactivate L = 0 \<and> L' = L\<lparr>deferred_deactivate := 1\<rparr> \<and>
           idle_pending W' = Suc (idle_pending W) \<and>
           trace W' = trace W @
              replicate k (SysSend (fd L) (OpenMsg (WESTON_LAUNCHER_OPEN P) flags path)) @
              [AddIdle, SetDeferred 1]))"
proof (cases mem)
  case False
  with assms have "L' = L" "W' = W" by (simp_all add: launcher_weston_launch_open_def)
  then have "L' = L \<and> idle_pending W' = idle_pending W \<and>
     trace W' = trace W @ replicate 0 (SysSend (fd L) (OpenMsg (WESTON_LAUNCHER_OPEN P) flags path))"
    by simp
  with \<open>W' = W\<close> show ?thesis by blast
next
  case True
  let ?m = "OpenMsg (WESTON_LAUNCHER_OPEN P) flags path"
  from assms True obtain n Ws where snd: "launcher_weston_launch_send (fd L) ?m W = Some (n, Ws)"
    by (cases "launcher_weston_launch_send (fd L) ?m W")
       (auto simp: launcher_weston_launch_open_def)
  with assms True have fin: "open_finish (open_wait P L Ws) = Some (res, L', W')"
    by (simp add: launcher_weston_launch_open_def)
  then obtain r where wt: "open_wait P L Ws = Some (r, L', W')"
    by (cases "open_wait P L Ws") (auto simp: open_finish_def)
  from send_world [OF snd] obtain k where
    s: "w_ioctl Ws = w_ioctl W" "session_active Ws = session_active W"
       "idle_pending Ws = idle_pending W" "trace Ws = trace W @ replicate (Suc k) (SysSend (fd L) ?m)"
    by blast
  from open_wait_effect [OF wt] s show ?thesis
    by (metis append.assoc)
qed

lemmas ex_defs = opcodes_example_def launcher_example_def world_example_def sent_def
  send_failed_def rights_def msg_deactivate_def msg_open_reply_def msg_hangup_def emit_def
  sizeof_event_def sizeof_event_id_def EINTR_def SOL_SOCKET_def SCM_RIGHTS_def

subsection \<open>The receive loop of \<^verbatim>\<open>launcher_weston_launch_open\<close>\<close>

text \<open>
  C1. While an open request waits for its reply (\<open>Li\<close>, \<open>Wi\<close> are the connection and the
  world at any turn of the loop, \<open>r\<close> what is received next): a \<^verbatim>\<open>DEACTIVATE\<close> message
  that arrives while \<open>deferred_deactivate\<close> is 0 adds one idle callback to the event loop,
  sets \<open>deferred_deactivate\<close> to 1, and the loop goes on waiting; any other message that
  is not the reply, and a \<^verbatim>\<open>DEACTIVATE\<close> that arrives while \<open>deferred_deactivate\<close> is set,
  ends the loop with \<open>ProtocolError\<close>, and the open call then fails with it, returning -1.
\<close>

theorem open_defers_one_deactivate_else_protocol_error:
  assumes snd: "launcher_weston_launch_send (fd L) (OpenMsg (WESTON_LAUNCHER_OPEN P) flags path) W
                  = Some (n, Ws)"
    and rcv: "recvmsg_retry Wi = Some (r, Wr)"
    and noreply: "\<not> (rx_len r = sizeof_event \<and> rx_id r = WESTON_LAUNCHER_OPEN_REPLY P)"
  shows "open_wait P Li Wi =
           (if rx_len r = sizeof_event_id \<and> rx_id r = WESTON_LAUNCHER_DEACTIVATE P
               \<and> deferred_deactivate Li = 0
            then open_wait P (Li\<lparr>deferred_deactivate := 1\<rparr>)
                   (Wr\<lparr>idle_pending := Suc (idle_pending Wr),
                       trace := trace Wr @ [AddIdle, SetDeferred 1]\<rparr>)
            else Some (Inl ProtocolError, Li, Wr))
         \<and> (\<forall>L' W'. open_wait P L Ws = Some (Inl ProtocolError, L', W') \<longrightarrow>
               launcher_weston_launch_open P L W path flags True = Some (Inl ProtocolError, L', W')
               \<and> open_status (Inl ProtocolError) = - 1)"
proof (intro conjI allI impI)
  show "open_wait P Li Wi =
           (if rx_len r = sizeof_event_id \<and> rx_id r = WESTON_LAUNCHER_DEACTIVATE P
               \<and> deferred_deactivate Li = 0
            then open_wait P (Li\<lparr>deferred_deactivate := 1\<rparr>)
                   (Wr\<lparr>idle_pending := Suc (idle_pending Wr),
                       trace := trace Wr @ [AddIdle, SetDeferred 1]\<rparr>)
            else Some (Inl ProtocolError, Li, Wr))"
    by (rule trans [OF open_wait_step [OF rcv]]) (simp only: if_not_P [OF noreply] emit_eq)
next
  fix L' W'
  assume "open_wait P L Ws = Some (Inl ProtocolError, L', W')"
  then show "launcher_weston_launch_open P L W path flags True = Some (Inl ProtocolError, L', W')"
    by (simp add: open_after_send [OF snd] open_finish_error)
next
  show "open_status (Inl ProtocolError) = - 1" by (simp add: open_status_def)
qed


text \<open>The theorem above at a first \<^verbatim>\<open>DEACTIVATE\<close>, which is deferred, and at a second
  one, which is the protocol error.\<close>

theorem open_defers_one_deactivate_else_protocol_error_witness:
  "launcher_weston_launch_open opcodes_example launcher_example
     (world_example [sent 20] [msg_deactivate, msg_deactivate]) ''/dev/dri/card0'' 2 True =
   Some (Inl ProtocolError, launcher_example\<lparr>deferred_deactivate := 1\<rparr>,
         (world_example [] [])\<lparr>idle_pending := 1,
            trace := [SysSend 3 (OpenMsg 0 2 ''/dev/dri/card0''), AddIdle, SetDeferred 1]\<rparr>)"
proof -
  let ?P = opcodes_example and ?L = launcher_example
  let ?m = "OpenMsg (WESTON_LAUNCHER_OPEN ?P) 2 ''/dev/dri/card0''"
  let ?W = "world_example [sent 20] [msg_deactivate, msg_deactivate]"
  let ?Ws = "(world_example [] [msg_deactivate, msg_deactivate])\<lparr>trace := [SysSend 3 ?m]\<rparr>"
  let ?W1 = "(world_example [] [msg_deactivate])\<lparr>trace := [SysSend 3 ?m]\<rparr>"
  let ?L1 = "?L\<lparr>deferred_deactivate := 1\<rparr>"
  let ?W1' = "?W1\<lparr>idle_pending := Suc (idle_pending ?W1),
                    trace := trace ?W1 @ [AddIdle, SetDeferred 1]\<rparr>"
  let ?W2 = "(world_example [] [])\<lparr>idle_pending := 1,
                    trace := [SysSend 3 ?m, AddIdle, SetDeferred 1]\<rparr>"
  have snd: "launcher_weston_launch_send (fd ?L) ?m ?W = Some (20, ?Ws)"
    by (simp add: launcher_weston_launch_send.simps ex_defs)
  have r1: "recvmsg_retry ?Ws = Some (msg_deactivate, ?W1)"
    by (simp add: recvmsg_retry.simps ex_defs)
  have r2: "recvmsg_retry ?W1' = Some (msg_deactivate, ?W2)"
    by (simp add: recvmsg_retry.simps ex_defs)
  have no: "\<not> (rx_len msg_deactivate = sizeof_event
               \<and> rx_id msg_deactivate = WESTON_LAUNCHER_OPEN_REPLY ?P)"
    by (simp add: ex_defs)
  note first = open_defers_one_deactivate_else_protocol_error [OF snd r1 no, of ?L]
  note second = open_defers_one_deactivate_else_protocol_error [OF snd r2 no, of ?L1]
  from first have "open_wait ?P ?L ?Ws = open_wait ?P ?L1 ?W1'"
    by (simp add: ex_defs)
  moreover from second have "open_wait ?P ?L1 ?W1' = Some (Inl ProtocolError, ?L1, ?W2)"
    by (simp add: ex_defs)
  ultimately have "open_wait ?P ?L ?Ws = Some (Inl ProtocolError, ?L1, ?W2)" by simp
  with first show ?thesis by (simp add: ex_defs)
qed

subsection \<open>The reply\<close>

text \<open>
  C3. For every \<^verbatim>\<open>OPEN_REPLY\<close> that the loop hands on (\<open>event\<close>): a negative result code
  gives \<open>OpenRejected\<close>; a result code that is not negative gives \<open>MissingDescriptor\<close>, which
  the caller sees as -1 and not as descriptor 0, when there is no control message, when
  its level is not \<^verbatim>\<open>SOL_SOCKET\<close> or its type is not \<^verbatim>\<open>SCM_RIGHTS\<close>, or when the
  descriptor in it is -1; and a descriptor \<open>d\<close> is returned only for a result code that is
  not negative with a well-formed control message that carries \<open>d\<close>, \<open>d\<close> not -1.
\<close>

theorem open_reply_validation:
  assumes snd: "launcher_weston_launch_send (fd L) (OpenMsg (WESTON_LAUNCHER_OPEN P) flags path) W
                  = Some (n, Ws)"
    and waited: "open_wait P L Ws = Some (Inr event, L2, W2)"
  shows "rx_len event = sizeof_event \<and> rx_id event = WESTON_LAUNCHER_OPEN_REPLY P
     \<and> launcher_weston_launch_open P L W path flags True = Some (open_validate event, L2, W2)
     \<and> (rx_ret event < 0 \<longrightarrow> open_validate event = Inl OpenRejected)
     \<and> (0 \<le> rx_ret event \<and> rx_cmsg event = None \<longrightarrow> open_validate event = Inl MissingDescriptor)
     \<and> (\<forall>c. 0 \<le> rx_ret event \<and> rx_cmsg event = Some c
              \<and> (cmsg_level c \<noteq> SOL_SOCKET \<or> cmsg_type c \<noteq> SCM_RIGHTS \<or> cmsg_fd c = - 1)
            \<longrightarrow> open_validate event = Inl MissingDescriptor)
     \<and> (\<forall>d. open_validate event = Inr d \<longleftrightarrow>
              0 \<le> rx_ret event \<and> rx_cmsg event = Some (rights d) \<and> d \<noteq> - 1)
     \<and> open_status (Inl MissingDescriptor) = - 1"
proof (intro conjI allI)
  from open_wait_Inr [OF waited]
  show "rx_len event = sizeof_event" "rx_id event = WESTON_LAUNCHER_OPEN_REPLY P" by simp_all
  show "launcher_weston_launch_open P L W path flags True = Some (open_validate event, L2, W2)"
    by (simp add: open_after_send [OF snd] waited open_finish_def)
  show "rx_ret event < 0 \<longrightarrow> open_validate event = Inl OpenRejected"
    by (simp add: open_validate_def)
  show "0 \<le> rx_ret event \<and> rx_cmsg event = None \<longrightarrow> open_validate event = Inl MissingDescriptor"
    by (simp add: open_validate_def)
  show "0 \<le> rx_ret event \<and> rx_cmsg event = Some c
          \<and> (cmsg_level c \<noteq> SOL_SOCKET \<or> cmsg_type c \<noteq> SCM_RIGHTS \<or> cmsg_fd c = - 1)
        \<longrightarrow> open_validate event = Inl MissingDescriptor" for c
    by (auto simp: open_validate_def)
  show "open_validate event = Inr d \<longleftrightarrow>
          0 \<le> rx_ret event \<and> rx_cmsg event = Some (rights d) \<and> d \<noteq> - 1" for d
    by (cases "rx_cmsg event") (auto simp: open_validate_def rights_def)
  show "open_status (Inl MissingDescriptor) = - 1" by (simp add: open_status_def)
qed

text \<open>The theorem above at a reply with descriptor 7, at a reply without control message,
  and at a reply with result code -13.\<close>

theorem open_reply_validation_witness:
  "launcher_weston_launch_open opcodes_example launcher_example
     (world_example [sent 20] [msg_open_reply 0 (Some (rights 7))]) ''/dev/dri/card0'' 2 True =
     Some (Inr 7, launcher_example,
           (world_example [] [])\<lparr>trace := [SysSend 3 (OpenMsg 0 2 ''/dev/dri/card0'')]\<rparr>)
   \<and> launcher_weston_launch_open opcodes_example launcher_example
     (world_example [sent 20] [msg_open_reply 0 None]) ''/dev/dri/card0'' 2 True =
     Some (Inl MissingDescriptor, launcher_example,
           (world_example [] [])\<lparr>trace := [SysSend 3 (OpenMsg 0 2 ''/dev/dri/card0'')]\<rparr>)
   \<and> launcher_weston_launch_open opcodes_example launcher_example
     (world_example [sent 20] [msg_open_reply (- 13) None]) ''/dev/dri/card0'' 2 True =
     Some (Inl OpenRejected, launcher_example,
           (world_example [] [])\<lparr>trace := [SysSend 3 (OpenMsg 0 2 ''/dev/dri/card0'')]\<rparr>)"
proof -
  let ?P = opcodes_example and ?L = launcher_example
  let ?m = "OpenMsg (WESTON_LAUNCHER_OPEN ?P) 2 ''/dev/dri/card0''"
  let ?W2 = "(world_example [] [])\<lparr>trace := [SysSend 3 ?m]\<rparr>"
  have snd: "launcher_weston_launch_send (fd ?L) ?m (world_example [sent 20] [r]) =
               Some (20, (world_example [] [r])\<lparr>trace := [SysSend 3 ?m]\<rparr>)" for r
    by (simp add: launcher_weston_launch_send.simps ex_defs)
  have wt: "open_wait ?P ?L ((world_example [] [msg_open_reply v c])\<lparr>trace := [SysSend 3 ?m]\<rparr>) =
              Some (Inr (msg_open_reply v c), ?L, ?W2)" for v c
    by (simp add: open_wait.simps recvmsg_retry.simps ex_defs)
  note a = open_reply_validation [OF snd wt, of 0 "Some (rights 7)"]
  note b = open_reply_validation [OF snd wt, of 0 None]
  note c = open_reply_validation [OF snd wt, of "- 13" None]
  have v: "open_validate (msg_open_reply 0 (Some (rights 7))) = Inr 7"
      "open_validate (msg_open_reply 0 None) = Inl MissingDescriptor"
      "open_validate (msg_open_reply (- 13) None) = Inl OpenRejected"
    by (simp_all add: open_validate_def ex_defs)
  from a b c show ?thesis by (simp add: v opcodes_example_def)
qed

text \<open>
  C4, as the code has it. A successful open returns a descriptor that is not -1.
  \<open>deferred_deactivate\<close> is 0 when it returns exactly when it was 0 at the call and no
  idle callback was added during the wait; when a \<^verbatim>\<open>DEACTIVATE\<close> was deferred during the
  wait, one callback was added and \<open>deferred_deactivate\<close> is 1 at the return.
\<close>

theorem open_success_descriptor_and_flag:
  assumes "launcher_weston_launch_open P L W path flags mem = Some (Inr d, L', W')"
  shows "d \<noteq> - 1 \<and>
         (deferred_deactivate L' = 0 \<longleftrightarrow>
            deferred_deactivate L = 0 \<and> idle_pending W' = idle_pending W) \<and>
         (idle_pending W' \<noteq> idle_pending W \<longrightarrow>
            deferred_deactivate L' = 1 \<and> idle_pending W' = Suc (idle_pending W))"
proof -
  let ?m = "OpenMsg (WESTON_LAUNCHER_OPEN P) flags path"
  from assms have mem: mem by (auto simp: launcher_weston_launch_open_def split: if_splits)
  from assms mem obtain n Ws where snd: "launcher_weston_launch_send (fd L) ?m W = Some (n, Ws)"
    by (cases "launcher_weston_launch_send (fd L) ?m W")
       (auto simp: launcher_weston_launch_open_def)
  with assms mem have fin: "open_finish (open_wait P L Ws) = Some (Inr d, L', W')"
    by (simp add: launcher_weston_launch_open_def)
  then obtain event where "open_validate event = Inr d"
    by (cases "open_wait P L Ws") (auto simp: open_finish_def split: sum.splits)
  then have d: "d \<noteq> - 1"
    by (auto simp: open_validate_def split: if_splits option.splits)
  from open_effect [OF assms] d show ?thesis by auto
qed

text \<open>C4 as the claim states it fails: a \<^verbatim>\<open>DEACTIVATE\<close> and then the reply with
  descriptor 8 make the open return 8 with \<open>deferred_deactivate\<close> 1.\<close>

theorem open_success_flag_counterexample:
  "map_option fst
     (launcher_weston_launch_open opcodes_example launcher_example
        (world_example [sent 20] [msg_deactivate, msg_open_reply 0 (Some (rights 8))])
        ''/dev/dri/card0'' 2 True) = Some (Inr 8)
   \<and> map_option (deferred_deactivate \<circ> fst \<circ> snd)
     (launcher_weston_launch_open opcodes_example launcher_example
        (world_example [sent 20] [msg_deactivate, msg_open_reply 0 (Some (rights 8))])
        ''/dev/dri/card0'' 2 True) = Some 1"
  by (simp add: launcher_weston_launch_open_def launcher_weston_launch_send.simps
      open_wait.simps recvmsg_retry.simps open_finish_def open_validate_def ex_defs)

text \<open>The amended statement on the same input.\<close>

theorem open_success_descriptor_and_flag_witness:
  "launcher_weston_launch_open opcodes_example launcher_example
     (world_example [sent 20] [msg_deactivate, msg_open_reply 0 (Some (rights 8))])
     ''/dev/dri/card0'' 2 True =
     Some (Inr 8, launcher_example\<lparr>deferred_deactivate := 1\<rparr>,
           (world_example [] [])\<lparr>idle_pending := 1,
              trace := [SysSend 3 (OpenMsg 0 2 ''/dev/dri/card0''), AddIdle, SetDeferred 1]\<rparr>)
   \<and> (8::int) \<noteq> - 1"
proof -
  have run: "launcher_weston_launch_open opcodes_example launcher_example
     (world_example [sent 20] [msg_deactivate, msg_open_reply 0 (Some (rights 8))])
     ''/dev/dri/card0'' 2 True =
     Some (Inr 8, launcher_example\<lparr>deferred_deactivate := 1\<rparr>,
           (world_example [] [])\<lparr>idle_pending := 1,
              trace := [SysSend 3 (OpenMsg 0 2 ''/dev/dri/card0''), AddIdle, SetDeferred 1]\<rparr>)"
    by (simp add: launcher_weston_launch_open_def launcher_weston_launch_send.simps
        open_wait.simps recvmsg_retry.simps open_finish_def open_validate_def ex_defs)
  from open_success_descriptor_and_flag [OF run] run show ?thesis
    by (simp add: world_example_def)
qed

subsection \<open>Lengths\<close>

lemma open_wait_other_length:
  assumes rcv: "recvmsg_retry Wi = Some (r, Wr)"
    and "rx_len r \<noteq> sizeof_event \<or> rx_id r \<noteq> WESTON_LAUNCHER_OPEN_REPLY P"
    and "rx_len r \<noteq> sizeof_event_id \<or> rx_id r \<noteq> WESTON_LAUNCHER_DEACTIVATE P"
  shows "open_wait P Li Wi = Some (Inl ProtocolError, Li, Wr)"
  using assms(2,3) by (auto simp: open_wait_step [OF rcv])

text \<open>
  C10. The loop tells the messages apart by the length received: a reply is taken only
  at length 8, a \<^verbatim>\<open>DEACTIVATE\<close> only at length 4. Any other length, the 0 of a peer that
  has hung up among them, is the protocol error, at every turn of the loop; the open call
  then returns -1, \<^verbatim>\<open>session_active\<close> is as before and the call has done nothing but send
  its request (and add the idle callback, if a \<^verbatim>\<open>DEACTIVATE\<close> came first): no \<^verbatim>\<open>ioctl\<close>,
  no \<^verbatim>\<open>exit\<close>. A hangup that the event loop reports to \<^verbatim>\<open>launcher_weston_launch_data\<close>
  restores the terminal and exits.
\<close>

theorem open_discriminates_by_length:
  assumes snd: "launcher_weston_launch_send (fd L) (OpenMsg (WESTON_LAUNCHER_OPEN P) flags path) W
                  = Some (n, Ws)"
    and rcv: "recvmsg_retry Wi = Some (r, Wr)"
  shows "(rx_len r \<noteq> 8 \<and> rx_len r \<noteq> 4 \<longrightarrow>
            open_wait P Li Wi = Some (Inl ProtocolError, Li, Wr))
     \<and> (rx_id r = WESTON_LAUNCHER_OPEN_REPLY P \<and> rx_len r \<noteq> 8
          \<and> WESTON_LAUNCHER_OPEN_REPLY P \<noteq> WESTON_LAUNCHER_DEACTIVATE P \<longrightarrow>
            open_wait P Li Wi = Some (Inl ProtocolError, Li, Wr))
     \<and> (rx_id r = WESTON_LAUNCHER_DEACTIVATE P \<and> rx_len r \<noteq> 4
          \<and> WESTON_LAUNCHER_OPEN_REPLY P \<noteq> WESTON_LAUNCHER_DEACTIVATE P \<longrightarrow>
            open_wait P Li Wi = Some (Inl ProtocolError, Li, Wr))
     \<and> trace Wr = trace Wi \<and> session_active Wr = session_active Wi
     \<and> (\<forall>L' W'. open_wait P L Ws = Some (Inl ProtocolError, L', W') \<longrightarrow>
           launcher_weston_launch_open P L W path flags True = Some (Inl ProtocolError, L', W')
           \<and> open_status (Inl ProtocolError) = - 1
           \<and> session_active W' = session_active W
           \<and> (\<exists>k. trace W' = trace W
                     @ replicate k (SysSend (fd L) (OpenMsg (WESTON_LAUNCHER_OPEN P) flags path))
                     @ (if L' = L then [] else [AddIdle, SetDeferred 1])))
     \<and> (\<forall>evmask. evmask AND (WL_EVENT_HANGUP OR WL_EVENT_ERROR) \<noteq> 0 \<longrightarrow>
           launcher_weston_launch_data P evmask L W =
             Some (Exits (- 1), L, emit [Exit (- 1)] (launcher_weston_launch_restore L W)))"
proof (intro conjI allI impI)
  assume "rx_len r \<noteq> 8 \<and> rx_len r \<noteq> 4"
  then show "open_wait P Li Wi = Some (Inl ProtocolError, Li, Wr)"
    by (intro open_wait_other_length [OF rcv]) (simp_all add: sizeof_event_def sizeof_event_id_def)
next
  assume "rx_id r = WESTON_LAUNCHER_OPEN_REPLY P \<and> rx_len r \<noteq> 8
          \<and> WESTON_LAUNCHER_OPEN_REPLY P \<noteq> WESTON_LAUNCHER_DEACTIVATE P"
  then show "open_wait P Li Wi = Some (Inl ProtocolError, Li, Wr)"
    by (intro open_wait_other_length [OF rcv]) (simp_all add: sizeof_event_def)
next
  assume "rx_id r = WESTON_LAUNCHER_DEACTIVATE P \<and> rx_len r \<noteq> 4
          \<and> WESTON_LAUNCHER_OPEN_REPLY P \<noteq> WESTON_LAUNCHER_DEACTIVATE P"
  then show "open_wait P Li Wi = Some (Inl ProtocolError, Li, Wr)"
    by (intro open_wait_other_length [OF rcv]) (auto simp add: sizeof_event_id_def)
next
  from recvmsg_retry_world [OF rcv]
  show "trace Wr = trace Wi" "session_active Wr = session_active Wi" by simp_all
next
  fix L' W'
  assume w: "open_wait P L Ws = Some (Inl ProtocolError, L', W')"
  then show res: "launcher_weston_launch_open P L W path flags True =
                    Some (Inl ProtocolError, L', W')"
    by (simp add: open_after_send [OF snd] open_finish_error)
  show "open_status (Inl ProtocolError) = - 1" by (simp add: open_status_def)
  from open_effect [OF res] show "session_active W' = session_active W" by simp
  from open_effect [OF res]
  show "\<exists>k. trace W' = trace W
           @ replicate k (SysSend (fd L) (OpenMsg (WESTON_LAUNCHER_OPEN P) flags path))
           @ (if L' = L then [] else [AddIdle, SetDeferred 1])"
    by (elim conjE exE disjE) (rule exI, simp, rule exI, auto dest: arg_cong [of _ _ deferred_deactivate])
next
  fix evmask :: "32 word"
  assume "evmask AND (WL_EVENT_HANGUP OR WL_EVENT_ERROR) \<noteq> 0"
  then show "launcher_weston_launch_data P evmask L W =
             Some (Exits (- 1), L, emit [Exit (- 1)] (launcher_weston_launch_restore L W))"
    by (simp add: launcher_weston_launch_data_def)
qed

text \<open>The theorem above at a peer that hangs up while the request is outstanding.\<close>

theorem open_discriminates_by_length_witness:
  "launcher_weston_launch_open opcodes_example launcher_example
     (world_example [sent 20] [msg_hangup]) ''/dev/dri/card0'' 2 True =
     Some (Inl ProtocolError, launcher_example,
           (world_example [] [])\<lparr>trace := [SysSend 3 (OpenMsg 0 2 ''/dev/dri/card0'')]\<rparr>)
   \<and> launcher_weston_launch_data opcodes_example WL_EVENT_HANGUP launcher_example
       (world_example [] []) =
     Some (Exits (- 1), launcher_example,
           (world_example [] [])\<lparr>trace := [Ioctl 4 KDSKBMUTE 0, Ioctl 4 KDSETMODE KD_TEXT,
              DropMaster (- 1), Ioctl 4 VT_SETMODE VT_AUTO, Exit (- 1)]\<rparr>)"
proof -
  let ?P = opcodes_example and ?L = launcher_example
  let ?m = "OpenMsg (WESTON_LAUNCHER_OPEN ?P) 2 ''/dev/dri/card0''"
  let ?W = "world_example [sent 20] [msg_hangup]"
  let ?Ws = "(world_example [] [msg_hangup])\<lparr>trace := [SysSend 3 ?m]\<rparr>"
  let ?Wr = "(world_example [] [])\<lparr>trace := [SysSend 3 ?m]\<rparr>"
  have snd: "launcher_weston_launch_send (fd ?L) ?m ?W = Some (20, ?Ws)"
    by (simp add: launcher_weston_launch_send.simps ex_defs)
  have rcv: "recvmsg_retry ?Ws = Some (msg_hangup, ?Wr)"
    by (simp add: recvmsg_retry.simps ex_defs)
  note t = open_discriminates_by_length [OF snd rcv, of ?L]
  have len: "rx_len msg_hangup \<noteq> 8 \<and> rx_len msg_hangup \<noteq> 4"
    by (simp add: msg_hangup_def)
  with t have "open_wait ?P ?L ?Ws = Some (Inl ProtocolError, ?L, ?Wr)" by blast
  with t have a: "launcher_weston_launch_open ?P ?L ?W ''/dev/dri/card0'' 2 True =
                 Some (Inl ProtocolError, ?L, ?Wr)" by blast
  from a show ?thesis
    by (simp add: launcher_weston_launch_data_def launcher_weston_launch_restore_def
        WL_EVENT_HANGUP_def WL_EVENT_ERROR_def ioctl_ok_def ex_defs)
qed

subsection \<open>Sending\<close>

lemma send_retries:
  assumes "\<forall>t \<in> set ts. tx_len t < 0 \<and> tx_errno t = EINTR"
    and "\<not> (tx_len t < 0 \<and> tx_errno t = EINTR)"
    and "w_sends W = ts @ t # rest"
  shows "launcher_weston_launch_send s b W =
           Some (tx_len t, W\<lparr>w_sends := rest,
                             trace := trace W @ replicate (Suc (length ts)) (SysSend s b)\<rparr>)"
  using assms
proof (induction ts arbitrary: W)
  case Nil
  then show ?case
    by (auto simp: launcher_weston_launch_send.simps [of s b W] emit_def Let_def)
next
  case (Cons a ts)
  let ?W1 = "emit [SysSend s b] (W\<lparr>w_sends := ts @ t # rest\<rparr>)"
  from Cons.prems have a: "tx_len a < 0 \<and> tx_errno a = EINTR" by simp
  from Cons.prems a have "launcher_weston_launch_send s b W = launcher_weston_launch_send s b ?W1"
    by (simp add: launcher_weston_launch_send.simps [of s b W] Let_def)
  also have "\<dots> = Some (tx_len t, ?W1\<lparr>w_sends := rest,
                 trace := trace ?W1 @ replicate (Suc (length ts)) (SysSend s b)\<rparr>)"
    using Cons.prems by (intro Cons.IH) (simp_all add: emit_def)
  also have "?W1\<lparr>w_sends := rest,
                 trace := trace ?W1 @ replicate (Suc (length ts)) (SysSend s b)\<rparr> =
             W\<lparr>w_sends := rest,
                 trace := trace W @ replicate (Suc (length (a # ts))) (SysSend s b)\<rparr>"
    by (simp add: emit_def)
  finally show ?case .
qed

lemma open_never_transport_error:
  "launcher_weston_launch_open P L W path flags mem \<noteq> Some (Inl TransportError, L', W')"
proof
  assume a: "launcher_weston_launch_open P L W path flags mem = Some (Inl TransportError, L', W')"
  show False
  proof (cases mem)
    case False
    with a show False by (simp add: launcher_weston_launch_open_def)
  next
    case True
    let ?m = "OpenMsg (WESTON_LAUNCHER_OPEN P) flags path"
    from a True obtain n Ws where snd: "launcher_weston_launch_send (fd L) ?m W = Some (n, Ws)"
      by (cases "launcher_weston_launch_send (fd L) ?m W")
         (auto simp: launcher_weston_launch_open_def)
    with a True have fin: "open_finish (open_wait P L Ws) = Some (Inl TransportError, L', W')"
      by (simp add: launcher_weston_launch_open_def)
    then obtain res where w: "open_wait P L Ws = Some (res, L', W')"
        and r: "(case res of Inl e \<Rightarrow> Inl e | Inr event \<Rightarrow> open_validate event) = Inl TransportError"
      by (cases "open_wait P L Ws") (auto simp: open_finish_def)
    show False
    proof (cases res)
      case (Inl e)
      with r have "e = TransportError" by simp
      with Inl w have "open_wait P L Ws = Some (Inl TransportError, L', W')" by simp
      then show False
      proof (induction P L Ws rule: open_wait.induct)
        case (1 P L W)
        from "1.prems" obtain r W1 where rcv: "recvmsg_retry W = Some (r, W1)"
          by (cases "recvmsg_retry W") (auto simp: open_wait.simps [of P L W])
        from "1.prems" "1.IH" [OF rcv refl] show ?case
          unfolding open_wait_step [OF rcv, of P L] by (auto split: if_splits)
      qed
    next
      case (Inr event)
      with r show False
        by (auto simp: open_validate_def split: if_splits option.splits)
    qed
  qed
qed

text \<open>
  C9, as the code has it. A send is repeated when \<^verbatim>\<open>send\<close> fails with \<^verbatim>\<open>EINTR\<close>, and
  only then: after the interrupted calls \<open>ts\<close> the outcome \<open>t\<close> of the next call, a failure
  among them, is what \<^verbatim>\<open>launcher_weston_launch_send\<close> returns. Both callers drop it: the
  open call goes on to its receive loop in the world that the send has left, and
  \<^verbatim>\<open>handle_deactivate\<close> returns; no open call ends with \<open>TransportError\<close>.
\<close>

theorem send_retries_on_EINTR_only_and_result_is_dropped:
  assumes "\<forall>t \<in> set ts. tx_len t < 0 \<and> tx_errno t = EINTR"
    and "\<not> (tx_len t < 0 \<and> tx_errno t = EINTR)"
    and "w_sends W = ts @ t # rest"
  shows "launcher_weston_launch_send s b W =
           Some (tx_len t, W\<lparr>w_sends := rest,
                             trace := trace W @ replicate (Suc (length ts)) (SysSend s b)\<rparr>)
     \<and> launcher_weston_launch_open P L W path flags True =
         open_finish (open_wait P L
           (W\<lparr>w_sends := rest,
              trace := trace W @ replicate (Suc (length ts))
                         (SysSend (fd L) (OpenMsg (WESTON_LAUNCHER_OPEN P) flags path))\<rparr>))
     \<and> handle_deactivate P L W =
         Some (W\<lparr>w_sends := rest, session_active := False,
                trace := trace W @ [SetSessionActive False, SignalEmit]
                  @ replicate (Suc (length ts))
                      (SysSend (fd L) (IntMsg (WESTON_LAUNCHER_DEACTIVATE_DONE P)))\<rparr>)
     \<and> (\<forall>mem L' W'. launcher_weston_launch_open P L W path flags mem
                        \<noteq> Some (Inl TransportError, L', W'))"
proof (intro conjI allI)
  show "launcher_weston_launch_send s b W =
           Some (tx_len t, W\<lparr>w_sends := rest,
                             trace := trace W @ replicate (Suc (length ts)) (SysSend s b)\<rparr>)"
    by (rule send_retries [OF assms])
  show "launcher_weston_launch_open P L W path flags True =
         open_finish (open_wait P L
           (W\<lparr>w_sends := rest,
              trace := trace W @ replicate (Suc (length ts))
                         (SysSend (fd L) (OpenMsg (WESTON_LAUNCHER_OPEN P) flags path))\<rparr>))"
    by (rule open_after_send [OF send_retries [OF assms]])
  let ?W1 = "emit [SetSessionActive False, SignalEmit] (W\<lparr>session_active := False\<rparr>)"
  have "w_sends ?W1 = ts @ t # rest" using assms(3) by (simp add: emit_def)
  from send_retries [OF assms(1,2) this]
  show "handle_deactivate P L W =
         Some (W\<lparr>w_sends := rest, session_active := False,
                trace := trace W @ [SetSessionActive False, SignalEmit]
                  @ replicate (Suc (length ts))
                      (SysSend (fd L) (IntMsg (WESTON_LAUNCHER_DEACTIVATE_DONE P)))\<rparr>)"
    by (simp add: handle_deactivate_def emit_def)
  show "launcher_weston_launch_open P L W path flags mem \<noteq> Some (Inl TransportError, L', W')"
    for mem L' W'
    by (rule open_never_transport_error)
qed

text \<open>C9 as the claim states it fails: the request is not sent (\<^verbatim>\<open>EPIPE\<close>), and the open
  call returns the descriptor 7 of a reply that arrives; when the peer has hung up it
  fails in the receive loop, as for any unexpected message; and when the send fails for
  want of memory and nothing arrives, it waits for ever for the reply.\<close>

theorem send_failure_ignored_counterexample:
  "launcher_weston_launch_open opcodes_example launcher_example
     (world_example [send_failed EPIPE] [msg_open_reply 0 (Some (rights 7))])
     ''/dev/dri/card0'' 2 True =
     Some (Inr 7, launcher_example,
           (world_example [] [])\<lparr>trace := [SysSend 3 (OpenMsg 0 2 ''/dev/dri/card0'')]\<rparr>)
   \<and> map_option fst
       (launcher_weston_launch_open opcodes_example launcher_example
          (world_example [send_failed EPIPE] [msg_hangup]) ''/dev/dri/card0'' 2 True) =
     Some (Inl ProtocolError)
   \<and> launcher_weston_launch_open opcodes_example launcher_example
       (world_example [send_failed ENOMEM] []) ''/dev/dri/card0'' 2 True = None"
  by (simp add: launcher_weston_launch_open_def launcher_weston_launch_send.simps
      open_wait.simps recvmsg_retry.simps open_finish_def open_validate_def ex_defs EPIPE_def
      ENOMEM_def)

text \<open>The amended statement at two interrupted calls and a call that fails with
  \<^verbatim>\<open>EPIPE\<close>: three calls, and the fourth outcome is left.\<close>

theorem send_retries_on_EINTR_only_and_result_is_dropped_witness:
  "launcher_weston_launch_send 3 (IntMsg 3)
     (world_example [send_failed EINTR, send_failed EINTR, send_failed EPIPE, sent 4] []) =
   Some (- 1, (world_example [sent 4] [])\<lparr>trace := [SysSend 3 (IntMsg 3), SysSend 3 (IntMsg 3),
                 SysSend 3 (IntMsg 3)]\<rparr>)"
proof -
  let ?W = "world_example [send_failed EINTR, send_failed EINTR, send_failed EPIPE, sent 4] []"
  have 1: "\<forall>t \<in> set [send_failed EINTR, send_failed EINTR]. tx_len t < 0 \<and> tx_errno t = EINTR"
    by (simp add: send_failed_def)
  have 2: "\<not> (tx_len (send_failed EPIPE) < 0 \<and> tx_errno (send_failed EPIPE) = EINTR)"
    by (simp add: send_failed_def EPIPE_def EINTR_def)
  have 3: "w_sends ?W = [send_failed EINTR, send_failed EINTR] @ send_failed EPIPE # [sent 4]"
    by (simp add: world_example_def)
  from send_retries_on_EINTR_only_and_result_is_dropped [OF 1 2 3, of 3 "IntMsg 3"]
  show ?thesis by (simp add: world_example_def send_failed_def)
qed

subsection \<open>Restoring and destroying\<close>

text \<open>
  C6, as the code has it. Every call of \<^verbatim>\<open>launcher_weston_launch_restore\<close> performs, in
  this order and whatever the calls return: the \<^verbatim>\<open>KDSKBMUTE\<close> ioctl that unmutes the
  keyboard; the \<^verbatim>\<open>KDSKBMODE\<close> ioctl with the cached mode, only when the unmute failed;
  \<^verbatim>\<open>KDSETMODE\<close> to text; \<^verbatim>\<open>drmDropMaster\<close>; \<^verbatim>\<open>VT_SETMODE\<close> to automatic. Nothing
  else of the world changes, and the function returns nothing.
\<close>

theorem restore_order:
  "launcher_weston_launch_restore L W =
     W\<lparr>trace := trace W
        @ [Ioctl (tty L) KDSKBMUTE 0]
        @ (if w_ioctl W (tty L) KDSKBMUTE 0 \<noteq> 0
           then [Ioctl (tty L) KDSKBMODE (kb_mode L)] else [])
        @ [Ioctl (tty L) KDSETMODE KD_TEXT, DropMaster (drm_fd L),
           Ioctl (tty L) VT_SETMODE VT_AUTO]\<rparr>"
  by (simp add: launcher_weston_launch_restore_def emit_def Let_def)

text \<open>C6 as the claim states it fails: when the unmute succeeds the keyboard mode is not
  restored to the cached value.\<close>

theorem restore_skips_kbmode_counterexample:
  "trace (launcher_weston_launch_restore launcher_example (world_example [] [])) =
     [Ioctl 4 KDSKBMUTE 0, Ioctl 4 KDSETMODE KD_TEXT, DropMaster (- 1),
      Ioctl 4 VT_SETMODE VT_AUTO]
   \<and> Ioctl 4 KDSKBMODE K_UNICODE
       \<notin> set (trace (launcher_weston_launch_restore launcher_example (world_example [] [])))"
  by (simp add: launcher_weston_launch_restore_def emit_def Let_def launcher_example_def
      world_example_def ioctl_ok_def KDSKBMUTE_def KDSKBMODE_def KDSETMODE_def VT_SETMODE_def)

text \<open>The amended statement where every \<^verbatim>\<open>ioctl\<close> fails: all five calls are made.\<close>

theorem restore_order_witness:
  "trace (launcher_weston_launch_restore launcher_example
            ((world_example [] [])\<lparr>w_ioctl := ioctl_fails\<rparr>)) =
     [Ioctl 4 KDSKBMUTE 0, Ioctl 4 KDSKBMODE K_UNICODE, Ioctl 4 KDSETMODE KD_TEXT,
      DropMaster (- 1), Ioctl 4 VT_SETMODE VT_AUTO]"
  by (simp add: restore_order launcher_example_def world_example_def ioctl_fails_def)







subsection \<open>Connecting\<close>

lemma get_fd_missing:
  "slot_missing strtoint p env \<Longrightarrow>
     launcher_weston_environment_get_fd strtoint env p = (- 1, p)"
  by (auto simp: slot_missing_def launcher_weston_environment_get_fd_def fcntl_getfd_def
      split: option.splits)

lemma get_fd_keeps_missing:
  assumes "launcher_weston_environment_get_fd strtoint env p = (d, p')" and "env' \<noteq> env"
  shows "slot_missing strtoint p' env' = slot_missing strtoint p env'"
proof -
  from assms(1) have "p' = p \<or> (\<exists>fl. fdflags p d = Some fl \<and>
        p' = p\<lparr>fdflags := (fdflags p)(d \<mapsto> fl OR FD_CLOEXEC),
               environ := (environ p)(env := None)\<rparr>)"
    by (auto simp: launcher_weston_environment_get_fd_def fcntl_getfd_def Let_def
        split: option.splits if_splits)
  then show ?thesis
  proof
    assume "p' = p" then show ?thesis by simp
  next
    assume "\<exists>fl. fdflags p d = Some fl \<and>
        p' = p\<lparr>fdflags := (fdflags p)(d \<mapsto> fl OR FD_CLOEXEC),
               environ := (environ p)(env := None)\<rparr>"
    then obtain fl where fl: "fdflags p d = Some fl"
      and p': "p' = p\<lparr>fdflags := (fdflags p)(d \<mapsto> fl OR FD_CLOEXEC),
               environ := (environ p)(env := None)\<rparr>" by blast
    show ?thesis using assms(2) fl unfolding p' slot_missing_def
      by (auto split: option.splits)
  qed
qed

text \<open>
  C5, as the code has it. \<^verbatim>\<open>connect\<close> fails with -1, the process unchanged, when the
  socket slot is absent or does not parse as an open descriptor. A terminal slot that is
  absent or does not parse as an open descriptor does not make it fail: the connection
  gets the terminal descriptor -1. Whenever \<^verbatim>\<open>connect\<close> fails, \<^verbatim>\<open>*out\<close> is not written
  and the connection object, when \<^verbatim>\<open>malloc\<close> had returned one, is freed; when
  \<^verbatim>\<open>connect\<close> succeeds, \<^verbatim>\<open>*out\<close> is written and nothing is freed.
\<close>

theorem connect_needs_socket_slot_only:
  "(slot_missing strtoint p ''WESTON_LAUNCHER_SOCK'' \<longrightarrow>
      launcher_weston_launch_connect strtoint True src p = (- 1, None, p, [Free]))
   \<and> (fst (launcher_weston_environment_get_fd strtoint ''WESTON_LAUNCHER_SOCK'' p) \<noteq> - 1
        \<and> slot_missing strtoint p ''WESTON_TTY_FD'' \<and> src \<noteq> 0 \<longrightarrow>
      fst (launcher_weston_launch_connect strtoint True src p) = 0
      \<and> map_option tty (fst (snd (launcher_weston_launch_connect strtoint True src p)))
          = Some (- 1))
   \<and> (fst (launcher_weston_launch_connect strtoint mem src p) \<noteq> 0 \<longrightarrow>
        fst (snd (launcher_weston_launch_connect strtoint mem src p)) = None
        \<and> snd (snd (snd (launcher_weston_launch_connect strtoint mem src p)))
            = (if mem then [Free] else []))
   \<and> (fst (launcher_weston_launch_connect strtoint mem src p) = 0 \<longrightarrow>
        fst (snd (launcher_weston_launch_connect strtoint mem src p)) \<noteq> None
        \<and> snd (snd (snd (launcher_weston_launch_connect strtoint mem src p))) = [])"
proof (intro conjI impI)
  assume "slot_missing strtoint p ''WESTON_LAUNCHER_SOCK''"
  from get_fd_missing [OF this]
  show "launcher_weston_launch_connect strtoint True src p = (- 1, None, p, [Free])"
    by (simp add: launcher_weston_launch_connect_def)
next
  assume a: "fst (launcher_weston_environment_get_fd strtoint ''WESTON_LAUNCHER_SOCK'' p) \<noteq> - 1
        \<and> slot_missing strtoint p ''WESTON_TTY_FD'' \<and> src \<noteq> 0"
  obtain d p1 where g: "launcher_weston_environment_get_fd strtoint ''WESTON_LAUNCHER_SOCK'' p
                         = (d, p1)"
    by (cases "launcher_weston_environment_get_fd strtoint ''WESTON_LAUNCHER_SOCK'' p")
  from get_fd_keeps_missing [OF g, of "''WESTON_TTY_FD''"] a
  have "slot_missing strtoint p1 ''WESTON_TTY_FD''" by simp
  from get_fd_missing [OF this] g a
  show "fst (launcher_weston_launch_connect strtoint True src p) = 0"
    and "map_option tty (fst (snd (launcher_weston_launch_connect strtoint True src p)))
          = Some (- 1)"
    by (simp_all add: launcher_weston_launch_connect_def)
next
  assume "fst (launcher_weston_launch_connect strtoint mem src p) \<noteq> 0"
  then show "fst (snd (launcher_weston_launch_connect strtoint mem src p)) = None"
    and "snd (snd (snd (launcher_weston_launch_connect strtoint mem src p)))
            = (if mem then [Free] else [])"
    by (auto simp: launcher_weston_launch_connect_def Let_def split: prod.splits if_splits)
next
  assume "fst (launcher_weston_launch_connect strtoint mem src p) = 0"
  then show "fst (snd (launcher_weston_launch_connect strtoint mem src p)) \<noteq> None"
    and "snd (snd (snd (launcher_weston_launch_connect strtoint mem src p))) = []"
    by (auto simp: launcher_weston_launch_connect_def Let_def ENOMEM_def
        split: prod.splits if_splits)
qed

text \<open>C5 as the claim states it fails: without a terminal slot \<^verbatim>\<open>connect\<close> returns 0.\<close>

theorem connect_without_terminal_counterexample:
  "fst (launcher_weston_launch_connect strtoint_example True 1 process_example) = 0
   \<and> map_option tty (fst (snd (launcher_weston_launch_connect strtoint_example True 1
        process_example))) = Some (- 1)
   \<and> environ process_example ''WESTON_TTY_FD'' = None"
  by (simp add: launcher_weston_launch_connect_def launcher_weston_environment_get_fd_def
      fcntl_getfd_def Let_def strtoint_example_def process_example_def)

text \<open>The amended statement without a terminal slot, and without a socket slot.\<close>

theorem connect_needs_socket_slot_only_witness:
  "fst (launcher_weston_launch_connect strtoint_example True 1 process_example) = 0
   \<and> map_option tty (fst (snd (launcher_weston_launch_connect strtoint_example True 1
        process_example))) = Some (- 1)
   \<and> snd (snd (snd (launcher_weston_launch_connect strtoint_example True 1 process_example)))
       = []
   \<and> launcher_weston_launch_connect strtoint_example True 1
        (process_example\<lparr>environ := [''WESTON_TTY_FD'' \<mapsto> ''4'']\<rparr>) =
       (- 1, None, process_example\<lparr>environ := [''WESTON_TTY_FD'' \<mapsto> ''4'']\<rparr>, [Free])"
proof -
  have 1: "fst (launcher_weston_environment_get_fd strtoint_example ''WESTON_LAUNCHER_SOCK''
                 process_example) \<noteq> - 1
      \<and> slot_missing strtoint_example process_example ''WESTON_TTY_FD'' \<and> (1::int) \<noteq> 0"
    by (simp add: launcher_weston_environment_get_fd_def fcntl_getfd_def Let_def
        strtoint_example_def process_example_def slot_missing_def)
  have 2: "slot_missing strtoint_example
             (process_example\<lparr>environ := [''WESTON_TTY_FD'' \<mapsto> ''4'']\<rparr>) ''WESTON_LAUNCHER_SOCK''"
    by (simp add: slot_missing_def)
  note a = connect_needs_socket_slot_only [of strtoint_example process_example 1 True]
  note b = connect_needs_socket_slot_only
         [of strtoint_example "process_example\<lparr>environ := [''WESTON_TTY_FD'' \<mapsto> ''4'']\<rparr>" 1]
  from a 1 have ok: "fst (launcher_weston_launch_connect strtoint_example True 1 process_example)
      = 0"
    and "map_option tty (fst (snd (launcher_weston_launch_connect strtoint_example True 1
        process_example))) = Some (- 1)"
    by blast+
  moreover from a ok
  have "snd (snd (snd (launcher_weston_launch_connect strtoint_example True 1 process_example)))
       = []"
    by blast
  moreover from b 2 have "launcher_weston_launch_connect strtoint_example True 1
        (process_example\<lparr>environ := [''WESTON_TTY_FD'' \<mapsto> ''4'']\<rparr>) =
       (- 1, None, process_example\<lparr>environ := [''WESTON_TTY_FD'' \<mapsto> ''4'']\<rparr>, [Free])"
    by blast
  ultimately show ?thesis by blast
qed

text \<open>
  When \<^verbatim>\<open>wl_event_loop_add_fd\<close> returns \<^verbatim>\<open>NULL\<close> (lines 346-350), with both slots read:
  the connection object is freed, and both descriptors stay open, now close-on-exec,
  with their slots erased.
\<close>

lemma connect_source_failure_closes_nothing:
  "fst (launcher_weston_launch_connect strtoint_example True 0 process_both) = - 12
   \<and> fst (snd (launcher_weston_launch_connect strtoint_example True 0 process_both)) = None
   \<and> snd (snd (snd (launcher_weston_launch_connect strtoint_example True 0 process_both)))
       = [Free]
   \<and> fdflags (fst (snd (snd (launcher_weston_launch_connect strtoint_example True 0
        process_both)))) 3 = Some 1
   \<and> fdflags (fst (snd (snd (launcher_weston_launch_connect strtoint_example True 0
        process_both)))) 4 = Some 1
   \<and> environ (fst (snd (snd (launcher_weston_launch_connect strtoint_example True 0
        process_both)))) ''WESTON_LAUNCHER_SOCK'' = None
   \<and> environ (fst (snd (snd (launcher_weston_launch_connect strtoint_example True 0
        process_both)))) ''WESTON_TTY_FD'' = None"
  by (simp add: launcher_weston_launch_connect_def launcher_weston_environment_get_fd_def
      fcntl_getfd_def Let_def strtoint_example_def process_both_def ENOMEM_def FD_CLOEXEC_def)

text \<open>
  C7. \<^verbatim>\<open>connect\<close> sets \<open>drm_fd\<close> to -1, and a successful open that returns descriptor 7
  leaves the connection as it was, \<open>drm_fd\<close> still -1: the restoration then calls
  \<^verbatim>\<open>drmDropMaster(-1)\<close>.
\<close>

theorem open_never_sets_drm_fd:
  "map_option drm_fd
     (fst (snd (launcher_weston_launch_connect strtoint_example True 1 process_example)))
     = Some (- 1)
   \<and> launcher_weston_launch_open opcodes_example launcher_example
       (world_example [sent 20] [msg_open_reply 0 (Some (rights 7))]) ''/dev/dri/card0'' 2 True =
     Some (Inr 7, launcher_example,
           (world_example [] [])\<lparr>trace := [SysSend 3 (OpenMsg 0 2 ''/dev/dri/card0'')]\<rparr>)
   \<and> drm_fd launcher_example = - 1
   \<and> trace (launcher_weston_launch_restore launcher_example (world_example [] [])) =
     [Ioctl 4 KDSKBMUTE 0, Ioctl 4 KDSETMODE KD_TEXT, DropMaster (- 1),
      Ioctl 4 VT_SETMODE VT_AUTO]"
  by (simp add: launcher_weston_launch_connect_def launcher_weston_environment_get_fd_def
      fcntl_getfd_def Let_def strtoint_example_def process_example_def
      launcher_weston_launch_open_def launcher_weston_launch_send.simps
      open_wait.simps recvmsg_retry.simps open_finish_def open_validate_def ex_defs
      launcher_weston_launch_restore_def ioctl_ok_def)

subsection \<open>The deferred notification\<close>




lemma count_deferred_sends [simp]:
  "count_list (replicate k (SysSend s b)) (SetDeferred v) = 0"
  by (induction k) simp_all















end
